theory Spec2Isabelle
  imports Complex_Main "HOL-Library.AList"
begin

section \<open>JavaScript values as the page scripts see them\<close>

text \<open>
  The three page scripts handle values that come out of \<^verbatim>\<open>response.json()\<close>, plus
  \<^verbatim>\<open>undefined\<close>, which an absent property reads as. A number is an IEEE double: the
  model keeps its exact rational value when it is finite (both zeros are the rational 0),
  since the scripts only ever test a number for truthiness.
\<close>

datatype jsnum = Finite rat | PosInfinity | NegInfinity | NaN

datatype jsval =
    Undefined
  | Null
  | Bool bool
  | Num jsnum
  | Str string
  | Arr "jsval list"
  | Obj "(string \<times> jsval) list"

text \<open>Exceptions: the \<^verbatim>\<open>Error\<close> thrown by the scripts with its message, and the two
  built-in ones they can provoke (the engine's message text is left out).\<close>

datatype jserror = TypeError | SyntaxError | Error string

text \<open>\<^verbatim>\<open>if (v)\<close>: the conversion of a value to a boolean.\<close>

fun truthy :: "jsval \<Rightarrow> bool" where
  "truthy Undefined = False"
| "truthy Null = False"
| "truthy (Bool b) = b"
| "truthy (Num n) = (case n of Finite r \<Rightarrow> r \<noteq> 0 | NaN \<Rightarrow> False | _ \<Rightarrow> True)"
| "truthy (Str s) = (s \<noteq> [])"
| "truthy (Arr xs) = True"
| "truthy (Obj kvs) = True"

text \<open>
  \<^verbatim>\<open>v.k\<close> for the data keys the scripts read (\<^verbatim>\<open>error_message\<close>, \<^verbatim>\<open>results\<close>,
  \<^verbatim>\<open>url\<close>, \<^verbatim>\<open>title\<close>, \<^verbatim>\<open>snippet\<close>), none of which is a built-in property of
  arrays, strings, numbers or booleans: reading a property of \<^verbatim>\<open>null\<close> or
  \<^verbatim>\<open>undefined\<close> throws a TypeError, an object gives the stored value or
  \<^verbatim>\<open>undefined\<close>, everything else gives \<^verbatim>\<open>undefined\<close>.
\<close>

fun get_prop :: "jsval \<Rightarrow> string \<Rightarrow> jserror + jsval" where
  "get_prop Undefined k = Inl TypeError"
| "get_prop Null k = Inl TypeError"
| "get_prop (Obj kvs) k = Inr (case map_of kvs k of Some v \<Rightarrow> v | None \<Rightarrow> Undefined)"
| "get_prop v k = Inr Undefined"

text \<open>
  \<^verbatim>\<open>v.k = x\<close> in a classic (non-strict) script: a TypeError on \<^verbatim>\<open>null\<close> and
  \<^verbatim>\<open>undefined\<close>, silently ignored on a primitive, stored on an object. An array
  would keep the value as an extra property; the model does not store it, which
  \<open>get_prop\<close> cannot tell apart when the value stored is \<^verbatim>\<open>undefined\<close>, the only value
  the scripts assign.
\<close>

fun set_prop :: "jsval \<Rightarrow> string \<Rightarrow> jsval \<Rightarrow> jserror + jsval" where
  "set_prop Undefined k x = Inl TypeError"
| "set_prop Null k x = Inl TypeError"
| "set_prop (Obj kvs) k x = Inr (Obj (AList.update k x kvs))"
| "set_prop v k x = Inr v"

text \<open>
  \<^verbatim>\<open>for (const result of v)\<close>: an array yields its elements, a string its characters
  as one-character strings, anything else is not iterable.
\<close>

fun iterate :: "jsval \<Rightarrow> jserror + jsval list" where
  "iterate (Arr xs) = Inr xs"
| "iterate (Str s) = Inr (map (\<lambda>c. Str [c]) s)"
| "iterate v = Inl TypeError"

text \<open>\<^verbatim>\<open>v.length === 0\<close> on a value that was iterated (an array or a string).\<close>

fun length_is_zero :: "jsval \<Rightarrow> bool" where
  "length_is_zero (Arr xs) = (xs = [])"
| "length_is_zero (Str s) = (s = [])"
| "length_is_zero v = False"

text \<open>
  Whether a value can be converted to a string, which \<^verbatim>\<open>"..." + v\<close> and the DOM's
  string-valued properties and arguments do. A primitive always can. An object that came
  out of JSON has no callable property of its own, so its own \<^verbatim>\<open>toString\<close>, if it has
  one, is skipped, the inherited \<^verbatim>\<open>valueOf\<close> gives the object back, and the conversion
  throws a TypeError; without an own \<^verbatim>\<open>toString\<close> the inherited one answers. An array
  is joined from the conversions of its elements (\<^verbatim>\<open>null\<close> and \<^verbatim>\<open>undefined\<close> as
  the empty string), so it converts when each element does.
\<close>

fun stringifiable :: "jsval \<Rightarrow> bool" where
  "stringifiable (Obj kvs) = (map_of kvs ''toString'' = None)"
| "stringifiable (Arr xs) = (\<forall>x\<in>set xs. stringifiable x)"
| "stringifiable v = True"


section \<open>The page: results container, alerts, console\<close>

text \<open>
  A DOM node: an element with its tag, class list, the properties assigned by the script
  (the value as assigned, before the DOM turns it into a string) and its children, or a
  text node with the value it was created from.
\<close>

datatype node =
    Element string "string list" "(string \<times> jsval) list" "node list"
  | TextNode jsval

text \<open>The text of an alert: a literal, or a literal followed by the string conversion
  of a value (\<^verbatim>\<open>"..." + v\<close>).\<close>

datatype message = Text string | Concat string jsval

text \<open>\<^verbatim>\<open>"..." + v\<close>: the text, or the TypeError of a value that has no string
  conversion.\<close>

definition string_concat :: "string \<Rightarrow> jsval \<Rightarrow> jserror + message" where
  "string_concat t v = (if stringifiable v then Inr (Concat t v) else Inl TypeError)"

text \<open>A value handed to a string-valued DOM property or argument (\<^verbatim>\<open>href\<close>,
  \<^verbatim>\<open>textContent\<close>, \<^verbatim>\<open>createTextNode\<close>): kept as it is when it converts, a TypeError
  otherwise.\<close>

definition dom_string :: "jsval \<Rightarrow> jserror + jsval" where
  "dom_string v = (if stringifiable v then Inr v else Inl TypeError)"

text \<open>
  What a page script can change: the children of the element with id \<^verbatim>\<open>results\<close>
  (which the page is taken to contain), the alerts shown so far and the lines written
  by \<^verbatim>\<open>console.error\<close>.
\<close>

record page =
  container :: "node list"
  alerts :: "message list"
  console :: "(string \<times> jserror) list"

text \<open>
  The results page also has its two top-level \<^verbatim>\<open>let\<close> variables and the property
  \<^verbatim>\<open>error_message\<close> of the global object. In a classic script \<^verbatim>\<open>this\<close> inside
  \<^verbatim>\<open>renderResults\<close>, called as a plain function, is the global object, and a
  top-level \<^verbatim>\<open>let\<close> is no property of it: \<^verbatim>\<open>this.error_message\<close> and the variable
  \<^verbatim>\<open>error_message\<close> are two different cells.
\<close>

record results_page = page +
  error_message :: jsval
  results :: jsval
  this_error_message :: jsval

definition initial_results_page :: "node list \<Rightarrow> results_page" where
  "initial_results_page ns =
     \<lparr>container = ns, alerts = [], console = [],
      error_message = Str [], results = Arr [], this_error_message = Undefined\<rparr>"

definition alert :: "message \<Rightarrow> 'a page_scheme \<Rightarrow> 'a page_scheme" where
  "alert m p = p\<lparr>alerts := alerts p @ [m]\<rparr>"

definition console_error :: "string \<Rightarrow> jserror \<Rightarrow> 'a page_scheme \<Rightarrow> 'a page_scheme" where
  "console_error t e p = p\<lparr>console := console p @ [(t, e)]\<rparr>"


section \<open>The fetch\<close>

text \<open>
  The request both controllers build from the two form fields, and what comes back:
  the fetch promise rejects, or resolves to a response with its \<^verbatim>\<open>ok\<close> flag and the
  outcome of \<^verbatim>\<open>response.json()\<close> (a rejection on a body that is not JSON).
\<close>

record request =
  url :: string
  http_method :: string
  content_type :: string
  body_query :: string
  body_algorithm :: string

definition post_json :: "string \<Rightarrow> string \<Rightarrow> string \<Rightarrow> request" where
  "post_json u q a =
     \<lparr>url = u, http_method = ''POST'', content_type = ''application/json'',
      body_query = q, body_algorithm = a\<rparr>"

datatype fetch_result = Rejected jserror | Response bool "jserror + jsval"

text \<open>The first \<^verbatim>\<open>then\<close> of both controllers.\<close>

definition check_ok :: "fetch_result \<Rightarrow> jserror + jsval" where
  "check_ok fr =
     (case fr of
        Rejected e \<Rightarrow> Inl e
      | Response ok body \<Rightarrow>
          if \<not> ok then Inl (Error ''Network response was not ok'') else body)"


section \<open>Results page (src/unnamed/part\_000)\<close>

text \<open>The list item of lines 24-25: \<^verbatim>\<open>li\<close> with class \<^verbatim>\<open>result\<close> and no children.\<close>

definition result_item :: node where
  "result_item = Element ''li'' [''result''] [] []"

text \<open>The loop of lines 13-31; a thrown exception leaves the items appended so far.\<close>

fun results_loop :: "jsval list \<Rightarrow> results_page \<Rightarrow> jserror option \<times> results_page" where
  "results_loop [] s = (None, s)"
| "results_loop (r # rs) s =
     (case get_prop r ''error_message'' of
        Inl e \<Rightarrow> (Some e, s)
      | Inr m \<Rightarrow>
          if truthy m then (None, s\<lparr>this_error_message := m\<rparr>)
          else results_loop rs (s\<lparr>container := container s @ [result_item]\<rparr>))"

definition results_renderResults :: "jsval \<Rightarrow> results_page \<Rightarrow> jserror option \<times> results_page" where
  "results_renderResults searchResults s =
     (let s1 = s\<lparr>container := []\<rparr> in
      case iterate searchResults of
        Inl e \<Rightarrow> (Some e, s1)
      | Inr xs \<Rightarrow>
          (case results_loop xs s1 of
             (Some e, s2) \<Rightarrow> (Some e, s2)
           | (None, s2) \<Rightarrow>
               if truthy (this_error_message s2) then
                 (case string_concat ''Error retrieving search results: '' (this_error_message s2) of
                    Inl e \<Rightarrow> (Some e, s2)
                  | Inr msg \<Rightarrow> (None, alert msg s2))
               else if length_is_zero searchResults then
                 (None, alert (Text ''No results found for your query.'') s2)
               else (None, s2)))"

text \<open>The second \<^verbatim>\<open>then\<close>, lines 64-76.\<close>

definition results_then :: "jsval \<Rightarrow> results_page \<Rightarrow> jserror option \<times> results_page" where
  "results_then data s =
     (case set_prop data ''results'' Undefined of
        Inl e \<Rightarrow> (Some e, s)
      | Inr data1 \<Rightarrow>
          (case get_prop data1 ''error_message'' of
             Inl e \<Rightarrow> (Some e, s)
           | Inr m \<Rightarrow>
               if truthy m then
                 (case string_concat ''Error from server: '' m of
                    Inl e \<Rightarrow> (Some e, s\<lparr>error_message := m\<rparr>)
                  | Inr msg \<Rightarrow> (None, alert msg (s\<lparr>error_message := m\<rparr>)))
               else
                 (case get_prop data1 ''results'' of
                    Inl e \<Rightarrow> (Some e, s)
                  | Inr r \<Rightarrow> results_renderResults r (s\<lparr>results := r\<rparr>))))"

definition results_request :: "string \<Rightarrow> string \<Rightarrow> request" where
  "results_request q a = post_json ''/results'' q a"

text \<open>The whole chain started by \<^verbatim>\<open>DOMContentLoaded\<close>: both \<^verbatim>\<open>then\<close>s and the
  \<^verbatim>\<open>catch\<close> that logs whatever either of them, or the fetch, threw.\<close>

definition results_load :: "fetch_result \<Rightarrow> results_page \<Rightarrow> results_page" where
  "results_load fr s =
     (case check_ok fr of
        Inl e \<Rightarrow> console_error ''Error fetching search results:'' e s
      | Inr data \<Rightarrow>
          (case results_then data s of
             (Some e, s1) \<Rightarrow> console_error ''Error fetching search results:'' e s1
           | (None, s1) \<Rightarrow> s1))"


section \<open>Documents page (templates/documents/script.js)\<close>

text \<open>
  The list item of lines 9-21: a link, a line break and the snippet text. Each of the
  three values is read from the result and handed to the DOM in turn (lines 13, 14, 16),
  so the first one that has no string conversion ends the call before line 24.
\<close>

definition document_item :: "jsval \<Rightarrow> jserror + node" where
  "document_item r =
     (case get_prop r ''url'' of
        Inl e \<Rightarrow> Inl e
      | Inr u0 \<Rightarrow>
     (case dom_string u0 of
        Inl e \<Rightarrow> Inl e
      | Inr u \<Rightarrow>
     (case get_prop r ''title'' of
        Inl e \<Rightarrow> Inl e
      | Inr t0 \<Rightarrow>
     (case dom_string t0 of
        Inl e \<Rightarrow> Inl e
      | Inr t \<Rightarrow>
     (case get_prop r ''snippet'' of
        Inl e \<Rightarrow> Inl e
      | Inr sn0 \<Rightarrow>
     (case dom_string sn0 of
        Inl e \<Rightarrow> Inl e
      | Inr sn \<Rightarrow>
          Inr (Element ''li'' [''result''] []
                 [Element ''a'' [] [(''href'', u), (''textContent'', t)] [],
                  Element ''br'' [] [] [],
                  TextNode sn])))))))"

fun documents_loop :: "jsval list \<Rightarrow> page \<Rightarrow> jserror option \<times> page" where
  "documents_loop [] p = (None, p)"
| "documents_loop (r # rs) p =
     (case document_item r of
        Inl e \<Rightarrow> (Some e, p)
      | Inr li \<Rightarrow> documents_loop rs (p\<lparr>container := container p @ [li]\<rparr>))"

definition documents_renderResults :: "jsval \<Rightarrow> page \<Rightarrow> jserror option \<times> page" where
  "documents_renderResults searchResults p =
     (let p1 = p\<lparr>container := []\<rparr> in
      case iterate searchResults of
        Inl e \<Rightarrow> (Some e, p1)
      | Inr xs \<Rightarrow> documents_loop xs p1)"

text \<open>The second \<^verbatim>\<open>then\<close>, lines 51-60.\<close>

definition documents_then :: "jsval \<Rightarrow> page \<Rightarrow> jserror option \<times> page" where
  "documents_then data p =
     (case get_prop data ''error_message'' of
        Inl e \<Rightarrow> (Some e, p)
      | Inr m \<Rightarrow>
          if truthy m then
            (case string_concat ''Error from server: '' m of
               Inl e \<Rightarrow> (Some e, p)
             | Inr msg \<Rightarrow> (None, alert msg p))
          else
            (case get_prop data ''results'' of
               Inl e \<Rightarrow> (Some e, p)
             | Inr r \<Rightarrow> documents_renderResults r p))"

definition documents_request :: "string \<Rightarrow> string \<Rightarrow> request" where
  "documents_request q a = post_json ''/documents'' q a"

text \<open>An event, as far as the handlers look at it; \<^verbatim>\<open>preventDefault\<close> on the
  cancelable events the browser dispatches for a key or a submit.\<close>

record event =
  key :: string
  defaultPrevented :: bool

definition preventDefault :: "event \<Rightarrow> event" where
  "preventDefault e = e\<lparr>defaultPrevented := True\<rparr>"

text \<open>The submit listener, lines 29-64.\<close>

definition documents_submit :: "event \<Rightarrow> fetch_result \<Rightarrow> page \<Rightarrow> event \<times> page" where
  "documents_submit ev fr p =
     (preventDefault ev,
      case check_ok fr of
        Inl e \<Rightarrow> console_error ''Error fetching search results:'' e p
      | Inr data \<Rightarrow>
          (case documents_then data p of
             (Some e, p1) \<Rightarrow> console_error ''Error fetching search results:'' e p1
           | (None, p1) \<Rightarrow> p1))"

text \<open>
  The theme, lines 66-72. \<^verbatim>\<open>localStorage.getItem\<close> gives the stored string or
  \<^verbatim>\<open>null\<close>; \<^verbatim>\<open>classList.add\<close> adds a class that is not there yet.
\<close>

definition nightThemeEnabled :: "(string \<rightharpoonup> string) \<Rightarrow> bool" where
  "nightThemeEnabled storage = (storage ''nightTheme'' = Some ''true'')"

definition classList_add :: "string \<Rightarrow> string list \<Rightarrow> string list" where
  "classList_add c cs = (if c \<in> set cs then cs else cs @ [c])"

definition documents_theme :: "(string \<rightharpoonup> string) \<Rightarrow> string list \<Rightarrow> string list" where
  "documents_theme storage root_classes =
     (if nightThemeEnabled storage then classList_add ''night-theme'' root_classes
      else root_classes)"


section \<open>Index page (src/unnamed/part\_001)\<close>

text \<open>
  The page is taken to contain the form that \<^verbatim>\<open>document.querySelector('form')\<close>
  finds; \<open>submits\<close> counts the calls of its \<^verbatim>\<open>submit()\<close>, \<open>console_log\<close> keeps the
  lines written by \<^verbatim>\<open>console.log\<close>.
\<close>

record index_page =
  submits :: nat
  console_log :: "(string \<times> string) list"
  query_focused :: bool

text \<open>The keyup listener of the query field, lines 5-10.\<close>

definition index_keyup :: "event \<Rightarrow> index_page \<Rightarrow> event \<times> index_page" where
  "index_keyup ev s =
     (if key ev = ''Enter'' then (preventDefault ev, s\<lparr>submits := submits s + 1\<rparr>)
      else (ev, s))"

text \<open>The change listener of the selector (lines 13-16) and \<^verbatim>\<open>window.onload\<close>
  (lines 21-23).\<close>

definition index_change :: "string \<Rightarrow> index_page \<Rightarrow> index_page" where
  "index_change selected s =
     s\<lparr>console_log := console_log s @ [(''Selected algorithm:'', selected)]\<rparr>"

definition index_onload :: "index_page \<Rightarrow> index_page" where
  "index_onload s = s\<lparr>query_focused := True\<rparr>"


section \<open>Inputs and views the statements speak about\<close>

text \<open>
  A result that passes the test of line 17 of the results page without stopping the
  loop: reading its \<^verbatim>\<open>error_message\<close> does not throw (it is neither \<^verbatim>\<open>null\<close> nor
  \<^verbatim>\<open>undefined\<close>) and gives a falsy value.
\<close>

definition error_free :: "jsval \<Rightarrow> bool" where
  "error_free r =
     (case get_prop r ''error_message'' of Inl e \<Rightarrow> False | Inr m \<Rightarrow> \<not> truthy m)"

text \<open>
  A result the documents page can render: its \<^verbatim>\<open>url\<close>, \<^verbatim>\<open>title\<close> and
  \<^verbatim>\<open>snippet\<close> can be read and each has a string conversion.
\<close>

definition renderable :: "jsval \<Rightarrow> bool" where
  "renderable r =
     (\<forall>k\<in>set [''url'', ''title'', ''snippet''].
        case get_prop r k of Inl e \<Rightarrow> False | Inr v \<Rightarrow> stringifiable v)"

text \<open>A documents page before any script ran, and a search result as the server
  sends it.\<close>

definition initial_page :: "node list \<Rightarrow> page" where
  "initial_page ns = \<lparr>container = ns, alerts = [], console = []\<rparr>"

definition search_result :: "string \<Rightarrow> string \<Rightarrow> string \<Rightarrow> jsval" where
  "search_result u t sn = Obj [(''url'', Str u), (''title'', Str t), (''snippet'', Str sn)]"

text \<open>What the user of either page can observe: rendered list, alerts, console.\<close>

definition same_view :: "'a page_scheme \<Rightarrow> 'b page_scheme \<Rightarrow> bool" where
  "same_view s p =
     (container s = container p \<and> alerts s = alerts p \<and> console s = console p)"

text \<open>
  A response on which neither controller reaches its renderer, and both throw, if they
  do, from the same expression: the fetch is rejected, the status is not OK, the body is
  not JSON, or \<^verbatim>\<open>data.error_message\<close> is truthy.
\<close>

definition error_response :: "fetch_result \<Rightarrow> bool" where
  "error_response fr =
     (case check_ok fr of
        Inl e \<Rightarrow> True
      | Inr data \<Rightarrow>
          (case get_prop data ''error_message'' of Inl e \<Rightarrow> False | Inr m \<Rightarrow> truthy m))"


section \<open>Properties of the property accesses and of the two loops\<close>

lemma set_then_get:
  "set_prop d k Undefined = Inr d1 \<Longrightarrow> get_prop d1 k = Inr Undefined"
  by (cases d) (auto simp: update_conv')

lemma set_keeps_other:
  "set_prop d k x = Inr d1 \<Longrightarrow> k' \<noteq> k \<Longrightarrow> get_prop d1 k' = get_prop d k'"
  by (cases d) (auto simp: update_conv')

lemma set_prop_throws:
  "set_prop d k x = Inl e \<Longrightarrow> get_prop d k' = Inl e"
  by (cases d) auto

lemma get_prop_throws:
  "get_prop d k = Inl e \<Longrightarrow> set_prop d k' x = Inl e"
  by (cases d) auto

lemma results_loop_error_free:
  "\<forall>r\<in>set xs. error_free r \<Longrightarrow>
   results_loop xs s = (None, s\<lparr>container := container s @ replicate (length xs) result_item\<rparr>)"
proof (induction xs arbitrary: s)
  case Nil
  then show ?case by simp
next
  case (Cons r rs)
  then obtain m where m: "get_prop r ''error_message'' = Inr m" "\<not> truthy m"
    by (auto simp: error_free_def split: sum.splits)
  from Cons.prems have "\<forall>r\<in>set rs. error_free r" by simp
  from Cons.IH [OF this] m show ?case by (simp add: replicate_app_Cons_same)
qed

lemma results_loop_stops:
  assumes "\<forall>r\<in>set pre. error_free r" "get_prop r ''error_message'' = Inr m" "truthy m"
  shows "results_loop (pre @ r # post) s =
     (None, s\<lparr>container := container s @ replicate (length pre) result_item,
               this_error_message := m\<rparr>)"
  using assms(1)
proof (induction pre arbitrary: s)
  case Nil
  with assms(2,3) show ?case by simp
next
  case (Cons a pre)
  then obtain n where n: "get_prop a ''error_message'' = Inr n" "\<not> truthy n"
    by (auto simp: error_free_def split: sum.splits)
  from Cons.prems have "\<forall>r\<in>set pre. error_free r" by simp
  from Cons.IH [OF this] n show ?case by (simp add: replicate_app_Cons_same)
qed

lemma document_item_renderable:
  "renderable r \<Longrightarrow> \<exists>li. document_item r = Inr li"
  by (auto simp: renderable_def document_item_def dom_string_def split: sum.splits)

lemma documents_loop_all:
  "\<forall>r\<in>set xs. renderable r \<Longrightarrow>
   \<exists>items. length items = length xs \<and>
     documents_loop xs p = (None, p\<lparr>container := container p @ items\<rparr>)"
proof (induction xs arbitrary: p)
  case Nil
  then show ?case by simp
next
  case (Cons r rs)
  then obtain li where li: "document_item r = Inr li"
    using document_item_renderable [of r] by auto
  from Cons.prems have "\<forall>r\<in>set rs. renderable r" by simp
  from Cons.IH [OF this, of "p\<lparr>container := container p @ [li]\<rparr>"]
  obtain items where "length items = length rs"
    "documents_loop rs (p\<lparr>container := container p @ [li]\<rparr>) =
       (None, p\<lparr>container := container p @ li # items\<rparr>)" by auto
  with li show ?case by (intro exI [of _ "li # items"]) simp
qed

lemma documents_loop_silent:
  "alerts (snd (documents_loop xs p)) = alerts p \<and>
   console (snd (documents_loop xs p)) = console p"
  by (induction xs arbitrary: p) (auto split: sum.splits)

lemma documents_render_silent:
  "alerts (snd (documents_renderResults v p)) = alerts p \<and>
   console (snd (documents_renderResults v p)) = console p"
  by (cases "iterate v") (simp_all add: documents_renderResults_def documents_loop_silent)

lemma results_render_error_free:
  assumes "\<forall>r\<in>set xs. error_free r"
  shows "results_renderResults (Arr xs) s =
     (if truthy (this_error_message s) then
        if stringifiable (this_error_message s) then
          (None,
           s\<lparr>container := replicate (length xs) result_item,
             alerts := alerts s @
               [Concat ''Error retrieving search results: '' (this_error_message s)]\<rparr>)
        else (Some TypeError, s\<lparr>container := replicate (length xs) result_item\<rparr>)
      else if xs = [] then
        (None,
         s\<lparr>container := [], alerts := alerts s @ [Text ''No results found for your query.'']\<rparr>)
      else (None, s\<lparr>container := replicate (length xs) result_item\<rparr>))"
  using results_loop_error_free [OF assms, of "s\<lparr>container := []\<rparr>"]
  by (simp add: results_renderResults_def alert_def string_concat_def)

lemma results_render_stops:
  assumes "\<forall>r\<in>set pre. error_free r"
    and "get_prop r ''error_message'' = Inr m" and "truthy m"
  shows "results_renderResults (Arr (pre @ r # post)) s =
     (if stringifiable m then
        (None,
         s\<lparr>container := replicate (length pre) result_item,
           alerts := alerts s @ [Concat ''Error retrieving search results: '' m],
           this_error_message := m\<rparr>)
      else
        (Some TypeError,
         s\<lparr>container := replicate (length pre) result_item, this_error_message := m\<rparr>))"
  using results_loop_stops [OF assms, of post "s\<lparr>container := []\<rparr>"] assms(3)
  by (simp add: results_renderResults_def alert_def string_concat_def)

lemma documents_render_all:
  assumes "\<forall>r\<in>set xs. renderable r"
  shows "\<exists>items. length items = length xs \<and>
     documents_renderResults (Arr xs) p = (None, p\<lparr>container := items\<rparr>)"
  using documents_loop_all [OF assms, of "p\<lparr>container := []\<rparr>"]
  by (auto simp: documents_renderResults_def)

lemma results_then_outcome:
  "results_then data s =
     (case get_prop data ''error_message'' of
        Inl e \<Rightarrow> (Some e, s)
      | Inr m \<Rightarrow>
          if truthy m then
            if stringifiable m then
              (None,
               s\<lparr>error_message := m, alerts := alerts s @ [Concat ''Error from server: '' m]\<rparr>)
            else (Some TypeError, s\<lparr>error_message := m\<rparr>)
          else (Some TypeError, s\<lparr>container := [], results := Undefined\<rparr>))"
proof (cases "set_prop data ''results'' Undefined")
  case (Inl e)
  then show ?thesis
    using set_prop_throws [OF Inl, of "''error_message''"] by (simp add: results_then_def)
next
  case (Inr d1)
  have 1: "get_prop d1 ''results'' = Inr Undefined" using set_then_get [OF Inr] .
  have 2: "get_prop d1 ''error_message'' = get_prop data ''error_message''"
    using set_keeps_other [OF Inr, of "''error_message''"] by simp
  have 3: "\<exists>m. get_prop data ''error_message'' = Inr m"
    using Inr by (cases data) auto
  show ?thesis using Inr 1 2 3
    by (auto simp: results_then_def results_renderResults_def alert_def string_concat_def)
qed

lemma results_load_outcome:
  "results_load fr s =
     (case check_ok fr of
        Inl e \<Rightarrow> s\<lparr>console := console s @ [(''Error fetching search results:'', e)]\<rparr>
      | Inr data \<Rightarrow>
          (case get_prop data ''error_message'' of
             Inl e \<Rightarrow> s\<lparr>console := console s @ [(''Error fetching search results:'', e)]\<rparr>
           | Inr m \<Rightarrow>
               if truthy m then
                 if stringifiable m then
                   s\<lparr>error_message := m,
                     alerts := alerts s @ [Concat ''Error from server: '' m]\<rparr>
                 else
                   s\<lparr>error_message := m,
                     console := console s @ [(''Error fetching search results:'', TypeError)]\<rparr>
               else
                 s\<lparr>container := [], results := Undefined,
                   console := console s @ [(''Error fetching search results:'', TypeError)]\<rparr>))"
  by (simp add: results_load_def results_then_outcome console_error_def split: sum.splits)

lemma documents_submit_outcome:
  "snd (documents_submit ev fr p) =
     (case check_ok fr of
        Inl e \<Rightarrow> p\<lparr>console := console p @ [(''Error fetching search results:'', e)]\<rparr>
      | Inr data \<Rightarrow>
          (case get_prop data ''error_message'' of
             Inl e \<Rightarrow> p\<lparr>console := console p @ [(''Error fetching search results:'', e)]\<rparr>
           | Inr m \<Rightarrow>
               if truthy m then
                 if stringifiable m then
                   p\<lparr>alerts := alerts p @ [Concat ''Error from server: '' m]\<rparr>
                 else p\<lparr>console := console p @ [(''Error fetching search results:'', TypeError)]\<rparr>
               else
                 (case get_prop data ''results'' of
                    Inl e \<Rightarrow> p\<lparr>console := console p @ [(''Error fetching search results:'', e)]\<rparr>
                  | Inr r \<Rightarrow>
                      (case documents_renderResults r p of
                         (Some e, p1) \<Rightarrow>
                           p1\<lparr>console := console p1 @ [(''Error fetching search results:'', e)]\<rparr>
                       | (None, p1) \<Rightarrow> p1))))"
  by (simp add: documents_submit_def documents_then_def console_error_def alert_def
      string_concat_def split: sum.splits prod.splits option.splits)

lemma results_load_renders_nothing:
  "container (results_load fr s) = container s \<or> container (results_load fr s) = []"
  by (simp add: results_load_outcome split: sum.splits)

lemma documents_submit_renders_all:
  assumes "get_prop data ''error_message'' = Inr m" and "\<not> truthy m"
    and "get_prop data ''results'' = Inr (Arr xs)"
    and "\<forall>r\<in>set xs. renderable r"
  shows "\<exists>items. length items = length xs \<and>
     snd (documents_submit ev (Response True (Inr data)) p) = p\<lparr>container := items\<rparr>"
proof -
  from documents_render_all [OF assms(4), of p] obtain items where
    "length items = length xs"
    "documents_renderResults (Arr xs) p = (None, p\<lparr>container := items\<rparr>)" by auto
  with assms(1-3) show ?thesis
    by (intro exI [of _ items]) (simp add: documents_submit_outcome check_ok_def)
qed


section \<open>The claims\<close>

subsection \<open>C1: N results give N list items\<close>

text \<open>
  C1 (a successful response with N results renders N list items). The results page does
  not: line 66 overwrites \<^verbatim>\<open>data.results\<close> with \<^verbatim>\<open>undefined\<close> before line 74 reads
  it, so \<^verbatim>\<open>renderResults(undefined)\<close> empties the container and throws on the
  \<^verbatim>\<open>for ... of\<close>; the \<^verbatim>\<open>catch\<close> logs the TypeError. On an OK response with one
  result the results page ends with no list item and one console error, where the
  documents page, on the same response, renders the one item.
\<close>

theorem results_page_drops_results:
  "results_load (Response True (Inr (Obj [(''results'', Arr [search_result ''u'' ''t'' ''s''])])))
     (initial_results_page []) =
   \<lparr>container = [], alerts = [],
    console = [(''Error fetching search results:'', TypeError)],
    error_message = Str [], results = Undefined, this_error_message = Undefined\<rparr> \<and>
   length (container (snd (documents_submit \<lparr>key = [], defaultPrevented = False\<rparr>
     (Response True (Inr (Obj [(''results'', Arr [search_result ''u'' ''t'' ''s''])])))
     (initial_page [])))) = 1"
  by (simp add: results_load_outcome documents_submit_outcome check_ok_def
      initial_results_page_def search_result_def documents_renderResults_def
      document_item_def dom_string_def initial_page_def)

subsection \<open>C2: the two controllers compared\<close>

text \<open>
  The claim of C2 as it is written fails. On an OK response with one result the documents
  page renders one list item and the results page none; and the two renderers, given the
  same empty sequence, differ in their alerts: the results page announces that nothing
  was found, the documents page stays silent.
\<close>

theorem controllers_differ_counterexample:
  "container (results_load
     (Response True (Inr (Obj [(''results'', Arr [search_result ''u'' ''t'' ''s''])])))
     (initial_results_page [])) = [] \<and>
   length (container (snd (documents_submit \<lparr>key = [], defaultPrevented = False\<rparr>
     (Response True (Inr (Obj [(''results'', Arr [search_result ''u'' ''t'' ''s''])])))
     (initial_page [])))) = 1 \<and>
   alerts (snd (results_renderResults (Arr []) (initial_results_page []))) =
     [Text ''No results found for your query.''] \<and>
   alerts (snd (documents_renderResults (Arr []) (initial_page []))) = []"
  by (simp add: results_load_outcome documents_submit_outcome check_ok_def
      initial_results_page_def search_result_def documents_renderResults_def
      document_item_def dom_string_def initial_page_def results_renderResults_def alert_def)

text \<open>
  C2, amended. The two controllers send the same request but for its URL. On every
  response that stops before the renderer (rejected fetch, status not OK, body not JSON,
  \<^verbatim>\<open>data.error_message\<close> truthy) they show the same alerts, write the same console
  line and leave the rendered list as it was. The two renderers append the same number of
  list items, the results page raising no alert, on every non-empty sequence of results
  that are all error-free and renderable, the error flag of the results page being
  unset. The renderer of the documents page never raises an alert, whatever it is given.
\<close>

theorem controllers_agree_without_results:
  "(results_request q a)\<lparr>url := ''/documents''\<rparr> = documents_request q a \<and>
   (same_view s p \<and> error_response fr \<longrightarrow>
      same_view (results_load fr s) (snd (documents_submit ev fr p)) \<and>
      container (results_load fr s) = container s) \<and>
   (\<not> truthy (this_error_message s) \<and> xs \<noteq> [] \<and>
    (\<forall>r\<in>set xs. error_free r \<and> renderable r) \<longrightarrow>
      length (container (snd (results_renderResults (Arr xs) s))) =
        length (container (snd (documents_renderResults (Arr xs) p))) \<and>
      alerts (snd (results_renderResults (Arr xs) s)) = alerts s) \<and>
   alerts (snd (documents_renderResults v p)) = alerts p"
proof (intro conjI impI)
  show "(results_request q a)\<lparr>url := ''/documents''\<rparr> = documents_request q a"
    by (simp add: results_request_def documents_request_def post_json_def)
next
  assume h: "same_view s p \<and> error_response fr"
  then show "same_view (results_load fr s) (snd (documents_submit ev fr p))"
    by (auto simp: results_load_outcome documents_submit_outcome same_view_def
        error_response_def split: sum.splits)
  from h show "container (results_load fr s) = container s"
    by (auto simp: results_load_outcome error_response_def split: sum.splits)
next
  assume h: "\<not> truthy (this_error_message s) \<and> xs \<noteq> [] \<and>
    (\<forall>r\<in>set xs. error_free r \<and> renderable r)"
  then have ef: "\<forall>r\<in>set xs. error_free r" and rd: "\<forall>r\<in>set xs. renderable r" by simp_all
  from documents_render_all [OF rd, of p] obtain items where
    items: "length items = length xs"
      "documents_renderResults (Arr xs) p = (None, p\<lparr>container := items\<rparr>)" by auto
  from h have rr: "results_renderResults (Arr xs) s =
      (None, s\<lparr>container := replicate (length xs) result_item\<rparr>)"
    using results_render_error_free [OF ef, of s] by simp
  show "length (container (snd (results_renderResults (Arr xs) s))) =
        length (container (snd (documents_renderResults (Arr xs) p)))"
    using rr items by simp
  show "alerts (snd (results_renderResults (Arr xs) s)) = alerts s" using rr by simp
next
  show "alerts (snd (documents_renderResults v p)) = alerts p"
    using documents_render_silent [of v p] by simp
qed

theorem controllers_agree_without_results_witness:
  "same_view (results_load (Response False (Inl SyntaxError)) (initial_results_page []))
     (snd (documents_submit \<lparr>key = [], defaultPrevented = False\<rparr>
        (Response False (Inl SyntaxError)) (initial_page []))) \<and>
   length (container (snd (results_renderResults (Arr [search_result ''u'' ''t'' ''s''])
     (initial_results_page [])))) =
   length (container (snd (documents_renderResults (Arr [search_result ''u'' ''t'' ''s''])
     (initial_page []))))"
proof -
  have 1: "same_view (initial_results_page []) (initial_page []) \<and>
      error_response (Response False (Inl SyntaxError))"
    by (simp add: same_view_def initial_results_page_def initial_page_def error_response_def
        check_ok_def)
  have 2: "\<not> truthy (this_error_message (initial_results_page [])) \<and>
      [search_result ''u'' ''t'' ''s''] \<noteq> [] \<and>
      (\<forall>r\<in>set [search_result ''u'' ''t'' ''s'']. error_free r \<and> renderable r)"
    by (simp add: initial_results_page_def search_result_def error_free_def renderable_def)
  show ?thesis
    using controllers_agree_without_results
      [of "''q''" "''a''" "initial_results_page []" "initial_page []"
          "Response False (Inl SyntaxError)" "\<lparr>key = [], defaultPrevented = False\<rparr>"
          "[search_result ''u'' ''t'' ''s'']" Null] 1 2
    by blast
qed

subsection \<open>C3: an error message in the response body\<close>

text \<open>
  The claim of C3 as it is written fails on a body whose \<^verbatim>\<open>error_message\<close> field is
  there but falsy: both controllers test \<^verbatim>\<open>if (data.error_message)\<close>. With the empty
  string in the field and one result beside it, the documents page shows no alert and
  renders the item; the results page shows no alert either. It fails as well on a truthy
  \<^verbatim>\<open>error_message\<close> that has no string conversion, such as the object
  \<^verbatim>\<open>{toString: 1}\<close>: building the alert text throws, the \<^verbatim>\<open>catch\<close> logs the
  TypeError and no alert is shown.
\<close>

theorem falsy_error_message_counterexample:
  "alerts (snd (documents_submit \<lparr>key = [], defaultPrevented = False\<rparr>
     (Response True (Inr (Obj [(''error_message'', Str ''''),
                               (''results'', Arr [search_result ''u'' ''t'' ''s''])])))
     (initial_page []))) = [] \<and>
   length (container (snd (documents_submit \<lparr>key = [], defaultPrevented = False\<rparr>
     (Response True (Inr (Obj [(''error_message'', Str ''''),
                               (''results'', Arr [search_result ''u'' ''t'' ''s''])])))
     (initial_page [])))) = 1 \<and>
   alerts (results_load
     (Response True (Inr (Obj [(''error_message'', Str ''''),
                               (''results'', Arr [search_result ''u'' ''t'' ''s''])])))
     (initial_results_page [])) = [] \<and>
   snd (documents_submit \<lparr>key = [], defaultPrevented = False\<rparr>
     (Response True (Inr (Obj [(''error_message'', Obj [(''toString'', Num (Finite 1))])])))
     (initial_page [])) =
   \<lparr>container = [], alerts = [],
    console = [(''Error fetching search results:'', TypeError)]\<rparr> \<and>
   alerts (results_load
     (Response True (Inr (Obj [(''error_message'', Obj [(''toString'', Num (Finite 1))])])))
     (initial_results_page [])) = [] \<and>
   console (results_load
     (Response True (Inr (Obj [(''error_message'', Obj [(''toString'', Num (Finite 1))])])))
     (initial_results_page [])) = [(''Error fetching search results:'', TypeError)]"
  by (simp add: results_load_outcome documents_submit_outcome check_ok_def
      initial_results_page_def search_result_def documents_renderResults_def
      document_item_def dom_string_def initial_page_def)

text \<open>
  C3, amended: for every parsed response body whose \<^verbatim>\<open>error_message\<close> is truthy and
  has a string conversion (as every non-empty string has), each controller shows that
  message in an alert and stops. Nothing else changes: the rendered list and the console
  are as before, so the renderer did not run (it would have emptied the list); the
  results page also keeps the message in its variable \<^verbatim>\<open>error_message\<close>.
\<close>

theorem server_error_alert_and_stop:
  assumes "get_prop data ''error_message'' = Inr m" and "truthy m" and "stringifiable m"
  shows "results_load (Response True (Inr data)) s =
           s\<lparr>error_message := m, alerts := alerts s @ [Concat ''Error from server: '' m]\<rparr> \<and>
         snd (documents_submit ev (Response True (Inr data)) p) =
           p\<lparr>alerts := alerts p @ [Concat ''Error from server: '' m]\<rparr>"
  using assms by (simp add: results_load_outcome documents_submit_outcome check_ok_def)

theorem server_error_alert_and_stop_witness:
  "truthy (Str ''boom'') \<and> stringifiable (Str ''boom'') \<and>
   results_load (Response True (Inr (Obj [(''error_message'', Str ''boom'')])))
     (initial_results_page [result_item]) =
   \<lparr>container = [result_item], alerts = [Concat ''Error from server: '' (Str ''boom'')],
    console = [], error_message = Str ''boom'', results = Arr [],
    this_error_message = Undefined\<rparr> \<and>
   snd (documents_submit \<lparr>key = [], defaultPrevented = False\<rparr>
     (Response True (Inr (Obj [(''error_message'', Str ''boom'')]))) (initial_page [result_item])) =
   \<lparr>container = [result_item], alerts = [Concat ''Error from server: '' (Str ''boom'')],
    console = []\<rparr>"
  using server_error_alert_and_stop
    [of "Obj [(''error_message'', Str ''boom'')]" "Str ''boom''"
        "initial_results_page [result_item]" "\<lparr>key = [], defaultPrevented = False\<rparr>"
        "initial_page [result_item]"]
  by (simp add: initial_results_page_def initial_page_def)

subsection \<open>C4: an error message inside a result\<close>

text \<open>
  The claim of C4 as it is written fails. The renderer of the documents page never looks
  at \<^verbatim>\<open>error_message\<close>: it renders a result that carries one and raises no alert. The
  renderer of the results page tests the field for truthiness: a result whose
  \<^verbatim>\<open>error_message\<close> is the empty string is rendered like any other, with no alert.
  And when the \<^verbatim>\<open>error_message\<close> is truthy but has no string conversion, the renderer
  of the results page throws while building the alert text, and no alert is shown.
\<close>

theorem result_error_counterexample:
  "alerts (snd (documents_renderResults (Arr [Obj [(''error_message'', Str ''boom'')]])
     (initial_page []))) = [] \<and>
   length (container (snd (documents_renderResults (Arr [Obj [(''error_message'', Str ''boom'')]])
     (initial_page [])))) = 1 \<and>
   alerts (snd (results_renderResults (Arr [Obj [(''error_message'', Str '''')]])
     (initial_results_page []))) = [] \<and>
   container (snd (results_renderResults (Arr [Obj [(''error_message'', Str '''')]])
     (initial_results_page []))) = [result_item] \<and>
   fst (results_renderResults
     (Arr [Obj [(''error_message'', Obj [(''toString'', Num (Finite 1))])]])
     (initial_results_page [])) = Some TypeError \<and>
   alerts (snd (results_renderResults
     (Arr [Obj [(''error_message'', Obj [(''toString'', Num (Finite 1))])]])
     (initial_results_page []))) = []"
  by (simp add: documents_renderResults_def document_item_def dom_string_def initial_page_def
      results_renderResults_def initial_results_page_def string_concat_def)

text \<open>
  C4, amended: for every sequence passed to the renderer of the results page in which a
  result has a truthy \<^verbatim>\<open>error_message\<close> with a string conversion, the results before
  it being error-free, rendering stops at the first such result: the list holds one item
  for each result before it and none for it or for a later one, and that message is
  shown in an alert (and kept in \<^verbatim>\<open>this.error_message\<close>). The renderer of the
  documents page makes no such check: it appends one item for every result of a sequence
  of renderable results, whatever \<^verbatim>\<open>error_message\<close> they carry, and raises no alert.
\<close>

theorem results_render_stops_at_error:
  "((\<forall>r\<in>set pre. error_free r) \<and> get_prop r ''error_message'' = Inr m \<and>
    truthy m \<and> stringifiable m \<longrightarrow>
      results_renderResults (Arr (pre @ r # post)) s =
        (None,
         s\<lparr>container := replicate (length pre) result_item,
           alerts := alerts s @ [Concat ''Error retrieving search results: '' m],
           this_error_message := m\<rparr>)) \<and>
   ((\<forall>r\<in>set xs. renderable r) \<longrightarrow>
      (\<exists>items. length items = length xs \<and>
         documents_renderResults (Arr xs) p = (None, p\<lparr>container := items\<rparr>)))"
proof (intro conjI impI)
  assume h: "(\<forall>r\<in>set pre. error_free r) \<and> get_prop r ''error_message'' = Inr m \<and>
    truthy m \<and> stringifiable m"
  then have 1: "\<forall>r\<in>set pre. error_free r" and 2: "get_prop r ''error_message'' = Inr m"
    and 3: "truthy m" and 4: "stringifiable m" by simp_all
  from results_loop_stops [OF 1 2 3, of post "s\<lparr>container := []\<rparr>"] 3 4
  show "results_renderResults (Arr (pre @ r # post)) s =
        (None,
         s\<lparr>container := replicate (length pre) result_item,
           alerts := alerts s @ [Concat ''Error retrieving search results: '' m],
           this_error_message := m\<rparr>)"
    by (simp add: results_renderResults_def alert_def string_concat_def)
next
  assume "\<forall>r\<in>set xs. renderable r"
  then show "\<exists>items. length items = length xs \<and>
         documents_renderResults (Arr xs) p = (None, p\<lparr>container := items\<rparr>)"
    by (rule documents_render_all)
qed

theorem results_render_stops_at_error_witness:
  "results_renderResults
     (Arr [search_result ''u'' ''t'' ''s'', Obj [(''error_message'', Str ''boom'')],
           search_result ''v'' ''w'' ''x''])
     (initial_results_page []) =
   (None,
    \<lparr>container = [result_item],
     alerts = [Concat ''Error retrieving search results: '' (Str ''boom'')],
     console = [], error_message = Str [], results = Arr [],
     this_error_message = Str ''boom''\<rparr>) \<and>
   (\<exists>items. length items = 1 \<and>
      documents_renderResults
        (Arr [Obj [(''url'', Str ''u''), (''error_message'', Str ''boom'')]]) (initial_page []) =
      (None, \<lparr>container = items, alerts = [], console = []\<rparr>))"
proof -
  have 1: "(\<forall>r\<in>set [search_result ''u'' ''t'' ''s'']. error_free r) \<and>
      get_prop (Obj [(''error_message'', Str ''boom'')]) ''error_message'' = Inr (Str ''boom'') \<and>
      truthy (Str ''boom'') \<and> stringifiable (Str ''boom'')"
    by (simp add: error_free_def search_result_def)
  have 2: "\<forall>r\<in>set [Obj [(''url'', Str ''u''), (''error_message'', Str ''boom'')]]. renderable r"
    by (simp add: renderable_def)
  show ?thesis
    using results_render_stops_at_error
      [of "[search_result ''u'' ''t'' ''s'']" "Obj [(''error_message'', Str ''boom'')]"
          "Str ''boom''" "[search_result ''v'' ''w'' ''x'']" "initial_results_page []"
          "[Obj [(''url'', Str ''u''), (''error_message'', Str ''boom'')]]" "initial_page []"]
      1 2
    by (simp add: initial_results_page_def initial_page_def)
qed

subsection \<open>C5: the empty sequence\<close>

text \<open>
  The claim of C5 as it is written fails. The renderer of the documents page shows no
  alert on an empty sequence; the renderer of the results page shows the error alert
  instead of the no-results alert when \<^verbatim>\<open>this.error_message\<close> is still set from an
  earlier call.
\<close>

theorem empty_results_counterexample:
  "documents_renderResults (Arr []) (initial_page []) = (None, initial_page []) \<and>
   alerts (initial_page []) = [] \<and>
   alerts (snd (results_renderResults (Arr [])
     (snd (results_renderResults (Arr [Obj [(''error_message'', Str ''boom'')]])
        (initial_results_page []))))) =
   [Concat ''Error retrieving search results: '' (Str ''boom''),
    Concat ''Error retrieving search results: '' (Str ''boom'')]"
  by (simp add: documents_renderResults_def initial_page_def results_renderResults_def
      initial_results_page_def alert_def string_concat_def)

text \<open>
  C5, amended: for every empty sequence passed to the renderer of the results page while
  \<^verbatim>\<open>this.error_message\<close> is falsy, the no-results alert is shown and the list is left
  empty; the renderer of the documents page leaves the list empty and shows no alert.
\<close>

theorem empty_results_alert:
  "(\<not> truthy (this_error_message s) \<longrightarrow>
      results_renderResults (Arr []) s =
        (None, s\<lparr>container := [],
                  alerts := alerts s @ [Text ''No results found for your query.'']\<rparr>)) \<and>
   documents_renderResults (Arr []) p = (None, p\<lparr>container := []\<rparr>)"
  by (simp add: results_renderResults_def documents_renderResults_def alert_def)

theorem empty_results_alert_witness:
  "\<not> truthy (this_error_message (initial_results_page [result_item])) \<and>
   results_renderResults (Arr []) (initial_results_page [result_item]) =
     (None,
      \<lparr>container = [], alerts = [Text ''No results found for your query.''], console = [],
       error_message = Str [], results = Arr [], this_error_message = Undefined\<rparr>)"
  using empty_results_alert [of "initial_results_page [result_item]" "initial_page []"]
  by (simp add: initial_results_page_def)

subsection \<open>C6: a status that is not OK\<close>

text \<open>
  C6: for every response whose status is not OK, whatever its body, each controller ends
  with one more console line, carrying the error \<^verbatim>\<open>Network response was not ok\<close>, and
  nothing else changed: no alert, the rendered list untouched.
\<close>

theorem not_ok_logged_only:
  "results_load (Response False body) s =
     s\<lparr>console := console s @
          [(''Error fetching search results:'', Error ''Network response was not ok'')]\<rparr> \<and>
   snd (documents_submit ev (Response False body) p) =
     p\<lparr>console := console p @
          [(''Error fetching search results:'', Error ''Network response was not ok'')]\<rparr>"
  by (simp add: results_load_def documents_submit_def check_ok_def console_error_def)

subsection \<open>C7: the Enter key\<close>

text \<open>
  C7: on a keyup event whose key is \<^verbatim>\<open>Enter\<close> the handler prevents the default action
  and submits the form once; on any other key it does nothing.
\<close>

theorem enter_submits_once:
  "(key ev = ''Enter'' \<longrightarrow>
      index_keyup ev s = (ev\<lparr>defaultPrevented := True\<rparr>, s\<lparr>submits := submits s + 1\<rparr>)) \<and>
   (key ev \<noteq> ''Enter'' \<longrightarrow> index_keyup ev s = (ev, s))"
  by (simp add: index_keyup_def preventDefault_def)

theorem enter_submits_once_witness:
  "index_keyup \<lparr>key = ''Enter'', defaultPrevented = False\<rparr>
     \<lparr>submits = 0, console_log = [], query_focused = True\<rparr> =
   (\<lparr>key = ''Enter'', defaultPrevented = True\<rparr>,
    \<lparr>submits = 1, console_log = [], query_focused = True\<rparr>) \<and>
   index_keyup \<lparr>key = ''a'', defaultPrevented = False\<rparr>
     \<lparr>submits = 0, console_log = [], query_focused = True\<rparr> =
   (\<lparr>key = ''a'', defaultPrevented = False\<rparr>,
    \<lparr>submits = 0, console_log = [], query_focused = True\<rparr>)"
  using enter_submits_once [of "\<lparr>key = ''Enter'', defaultPrevented = False\<rparr>"
      "\<lparr>submits = 0, console_log = [], query_focused = True\<rparr>"]
    enter_submits_once [of "\<lparr>key = ''a'', defaultPrevented = False\<rparr>"
      "\<lparr>submits = 0, console_log = [], query_focused = True\<rparr>"]
  by simp

subsection \<open>C8: the night theme\<close>

text \<open>
  C8: the class \<^verbatim>\<open>night-theme\<close> is on the document root after the script if the stored
  value is the string \<^verbatim>\<open>true\<close>; for any other stored value, or none, the class list
  is left as it was. So on a root without the class, the class is there afterwards if and
  only if the stored value is \<^verbatim>\<open>true\<close>.
\<close>

theorem night_theme_iff_true:
  "(storage ''nightTheme'' = Some ''true'' \<longrightarrow>
      ''night-theme'' \<in> set (documents_theme storage root_classes)) \<and>
   (storage ''nightTheme'' \<noteq> Some ''true'' \<longrightarrow>
      documents_theme storage root_classes = root_classes) \<and>
   (''night-theme'' \<notin> set root_classes \<longrightarrow>
      (''night-theme'' \<in> set (documents_theme storage root_classes) \<longleftrightarrow>
       storage ''nightTheme'' = Some ''true''))"
  by (auto simp: documents_theme_def nightThemeEnabled_def classList_add_def)

theorem night_theme_iff_true_witness:
  "''night-theme'' \<in> set (documents_theme [''nightTheme'' \<mapsto> ''true''] []) \<and>
   documents_theme [''nightTheme'' \<mapsto> ''false''] [] = [] \<and>
   documents_theme Map.empty [] = []"
  using night_theme_iff_true [of "[''nightTheme'' \<mapsto> ''true'']" "[]"]
    night_theme_iff_true [of "[''nightTheme'' \<mapsto> ''false'']" "[]"]
    night_theme_iff_true [of "Map.empty" "[]"]
  by simp

subsection \<open>C9: the error flag is never reset\<close>

text \<open>
  The claim of C9 as it is written fails for some earlier calls whose input contained a
  result with an \<^verbatim>\<open>error_message\<close>. When that \<^verbatim>\<open>error_message\<close> is the empty
  string, the earlier call sets no flag and the later call ends exactly as the call that
  nothing preceded, without an alert. When it is truthy but has no string conversion, the
  flag is set, yet the later call throws while building the alert text and raises no
  alert either.
\<close>

theorem stale_flag_needs_alert_counterexample:
  "results_renderResults (Arr [search_result ''u'' ''t'' ''s''])
     (snd (results_renderResults (Arr [Obj [(''error_message'', Str '''')]])
        (initial_results_page []))) =
   results_renderResults (Arr [search_result ''u'' ''t'' ''s'']) (initial_results_page []) \<and>
   alerts (snd (results_renderResults (Arr [search_result ''u'' ''t'' ''s''])
     (initial_results_page []))) = [] \<and>
   alerts (snd (results_renderResults (Arr [search_result ''u'' ''t'' ''s''])
     (snd (results_renderResults
        (Arr [Obj [(''error_message'', Obj [(''toString'', Num (Finite 1))])]])
        (initial_results_page []))))) = []"
  by (simp add: results_renderResults_def initial_results_page_def search_result_def
      string_concat_def)

text \<open>
  C9, amended: the renderer of the results page is not determined by its argument. Take a
  non-empty sequence of error-free results and a page whose \<^verbatim>\<open>this.error_message\<close> is
  unset. Called on that page the renderer raises no alert. Called after a call whose loop
  reached a result with a truthy \<^verbatim>\<open>error_message\<close> that has a string conversion (the
  results before it being error-free), with the same argument, it renders the same list
  but raises the earlier call's error alert once more, and the flag is still set
  afterwards: nothing resets it.
\<close>

theorem stale_error_flag:
  assumes "\<not> truthy (this_error_message s)"
    and "xs \<noteq> []" and "\<forall>r\<in>set xs. error_free r"
    and "\<forall>r\<in>set pre. error_free r"
    and "get_prop e ''error_message'' = Inr m" and "truthy m" and "stringifiable m"
  shows "alerts (snd (results_renderResults (Arr xs) s)) = alerts s \<and>
    alerts (snd (results_renderResults (Arr xs)
      (snd (results_renderResults (Arr (pre @ e # post)) s)))) =
      alerts (snd (results_renderResults (Arr (pre @ e # post)) s)) @
        [Concat ''Error retrieving search results: '' m] \<and>
    this_error_message (snd (results_renderResults (Arr xs)
      (snd (results_renderResults (Arr (pre @ e # post)) s)))) = m \<and>
    container (snd (results_renderResults (Arr xs)
      (snd (results_renderResults (Arr (pre @ e # post)) s)))) =
      container (snd (results_renderResults (Arr xs) s))"
proof -
  let ?s1 = "snd (results_renderResults (Arr (pre @ e # post)) s)"
  have s1: "?s1 = s\<lparr>container := replicate (length pre) result_item,
        alerts := alerts s @ [Concat ''Error retrieving search results: '' m],
        this_error_message := m\<rparr>"
    using results_render_stops [OF assms(4-6), of post s] assms(7) by simp
  have direct: "results_renderResults (Arr xs) s =
      (None, s\<lparr>container := replicate (length xs) result_item\<rparr>)"
    using results_render_error_free [OF assms(3), of s] assms(1,2) by simp
  have later: "results_renderResults (Arr xs) ?s1 =
      (None, ?s1\<lparr>container := replicate (length xs) result_item,
          alerts := alerts ?s1 @ [Concat ''Error retrieving search results: '' m]\<rparr>)"
    using results_render_error_free [OF assms(3), of ?s1] assms(6,7) by (simp add: s1)
  show ?thesis using direct later by (simp add: s1)
qed

theorem stale_error_flag_witness:
  "alerts (snd (results_renderResults (Arr [search_result ''u'' ''t'' ''s''])
     (initial_results_page []))) = [] \<and>
   alerts (snd (results_renderResults (Arr [search_result ''u'' ''t'' ''s''])
     (snd (results_renderResults (Arr [Obj [(''error_message'', Str ''boom'')]])
        (initial_results_page []))))) =
   alerts (snd (results_renderResults (Arr [Obj [(''error_message'', Str ''boom'')]])
        (initial_results_page []))) @
     [Concat ''Error retrieving search results: '' (Str ''boom'')]"
  using stale_error_flag
    [of "initial_results_page []" "[search_result ''u'' ''t'' ''s'']" "[]"
        "Obj [(''error_message'', Str ''boom'')]" "Str ''boom''" "[]"]
  by (simp add: initial_results_page_def search_result_def error_free_def)

subsection \<open>C10: what an error leaves in the list\<close>

text \<open>
  The claim of C10 as it is written fails when the first \<^verbatim>\<open>error_message\<close> a result
  carries is falsy: with the empty string in the first of two results, the loop does not
  stop at position 0; both results are rendered and no error alert follows. It fails as
  well when that \<^verbatim>\<open>error_message\<close> is truthy but has no string conversion: the loop
  stops and the items before it remain, but the renderer throws while building the alert
  text, so there is no error alert.
\<close>

theorem falsy_error_keeps_rendering_counterexample:
  "container (snd (results_renderResults
     (Arr [Obj [(''error_message'', Str '''')], search_result ''u'' ''t'' ''s''])
     (initial_results_page [TextNode (Str ''old'')]))) = [result_item, result_item] \<and>
   alerts (snd (results_renderResults
     (Arr [Obj [(''error_message'', Str '''')], search_result ''u'' ''t'' ''s''])
     (initial_results_page [TextNode (Str ''old'')]))) = [] \<and>
   results_renderResults
     (Arr [search_result ''u'' ''t'' ''s'',
           Obj [(''error_message'', Obj [(''toString'', Num (Finite 1))])]])
     (initial_results_page [TextNode (Str ''old'')]) =
   (Some TypeError,
    \<lparr>container = [result_item], alerts = [], console = [],
     error_message = Str [], results = Arr [],
     this_error_message = Obj [(''toString'', Num (Finite 1))]\<rparr>)"
  by (simp add: results_renderResults_def initial_results_page_def search_result_def
      string_concat_def)

text \<open>
  C10, amended: for every sequence whose first result with a truthy \<^verbatim>\<open>error_message\<close>
  is at position \<open>k\<close>, that \<^verbatim>\<open>error_message\<close> having a string conversion and the
  results before it being error-free, the renderer of the results page returns normally
  with the error alert shown and the list consisting of exactly the \<open>k\<close> items
  appended for the results before it: whatever the list held before the call is gone.
\<close>

theorem results_render_partial_on_error:
  assumes "k < length xs" and "\<forall>i<k. error_free (xs ! i)"
    and "get_prop (xs ! k) ''error_message'' = Inr m" and "truthy m" and "stringifiable m"
  shows "fst (results_renderResults (Arr xs) s) = None \<and>
    container (snd (results_renderResults (Arr xs) s)) = replicate k result_item \<and>
    alerts (snd (results_renderResults (Arr xs) s)) =
      alerts s @ [Concat ''Error retrieving search results: '' m]"
proof -
  have split: "xs = take k xs @ xs ! k # drop (Suc k) xs"
    using assms(1) by (rule id_take_nth_drop)
  have "\<forall>r\<in>set (take k xs). error_free r"
  proof
    fix r assume "r \<in> set (take k xs)"
    then obtain i where "i < length (take k xs)" "take k xs ! i = r"
      by (auto simp: in_set_conv_nth)
    with assms(1,2) show "error_free r" by auto
  qed
  from results_render_stops [OF this assms(3,4), of "drop (Suc k) xs" s] split assms(1,5)
  show ?thesis by simp
qed

theorem results_render_partial_on_error_witness:
  "container (snd (results_renderResults
     (Arr [search_result ''u'' ''t'' ''s'', search_result ''v'' ''w'' ''x'',
           Obj [(''error_message'', Str ''boom'')], search_result ''y'' ''z'' ''''])
     (initial_results_page [TextNode (Str ''old'')]))) = [result_item, result_item] \<and>
   alerts (snd (results_renderResults
     (Arr [search_result ''u'' ''t'' ''s'', search_result ''v'' ''w'' ''x'',
           Obj [(''error_message'', Str ''boom'')], search_result ''y'' ''z'' ''''])
     (initial_results_page [TextNode (Str ''old'')]))) =
   [Concat ''Error retrieving search results: '' (Str ''boom'')]"
proof -
  let ?xs = "[search_result ''u'' ''t'' ''s'', search_result ''v'' ''w'' ''x'',
           Obj [(''error_message'', Str ''boom'')], search_result ''y'' ''z'' '''']"
  have 1: "(2::nat) < length ?xs" by simp
  have 2: "\<forall>i<2. error_free (?xs ! i)"
    by (auto simp: less_Suc_eq numeral_2_eq_2 error_free_def search_result_def)
  have 3: "get_prop (?xs ! 2) ''error_message'' = Inr (Str ''boom'')" by simp
  have 4: "truthy (Str ''boom'')" by simp
  have 5: "stringifiable (Str ''boom'')" by simp
  show ?thesis
    using results_render_partial_on_error
      [OF 1 2 3 4 5, of "initial_results_page [TextNode (Str ''old'')]"]
    by (simp add: initial_results_page_def numeral_2_eq_2)
qed

end
